theory Spec2Isabelle
  imports Main "HOL-Library.Multiset"
begin

section \<open>The wallet client (src/lib/client/api.js)\<close>

text \<open>
  The client holds one copayer's wallet data in a storage collaborator, talks to the
  wallet service through a transport collaborator, and checks what the service returns
  with a verifier. The callbacks of the source are written in direct style: an
  operation takes the world (storage and the log of effects) and returns the value its
  callback receives, \<open>Inl\<close> for the error argument, together with the new world.

  Keys, extended keys, addresses and signatures are represented by their string
  encodings. The functions of Bitcore, WalletUtils, Verifier, JSON, the storage and the
  transport are not part of the file; they are fields of the record \<open>env\<close> and every
  theorem holds for all of them, unless it states what it needs of one.
\<close>

subsection \<open>Data\<close>

datatype json =
    JNull
  | JBool bool
  | JNum int
  | JStr string
  | JArr "json list"
  | JObj "(string \<times> json) list"

text \<open>
  The object \<open>data\<close> that the storage holds. A field that can be \<open>undefined\<close> is an
  option. The fields \<open>m\<close> and \<open>n\<close> of the source are \<open>data_m\<close> and \<open>data_n\<close> here.
\<close>

record wallet =
  copayerId :: "string option"
  xPrivKey :: "string option"
  publicKeyRing :: "string list option"
  network :: "string option"
  data_m :: "int option"
  data_n :: "int option"
  roPrivKey :: "string option"
  rwPrivKey :: "string option"
  walletPrivKey :: "string option"
  sharedEncryptingKey :: "string option"

text \<open>The empty object \<open>{}\<close> that the requests made before a wallet exists pass as data.\<close>

definition empty_data :: wallet where
  "empty_data = \<lparr>copayerId = None, xPrivKey = None, publicKeyRing = None, network = None,
     data_m = None, data_n = None, roPrivKey = None, rwPrivKey = None,
     walletPrivKey = None, sharedEncryptingKey = None\<rparr>"

record copayer =
  xPubKey :: string
  xPubKeySignature :: string
  copayerName :: string

record wallet_info =
  status :: string
  copayers :: "copayer list"
  info_m :: "int option"
  info_n :: "int option"

record address_rec =
  address :: string
  addr_path :: string

record input =
  path :: string
  publicKeys :: "string list"
  txid :: string
  vout :: nat

record action =
  act_copayerId :: string
  act_type :: string
  comment :: "string option"

record txp =
  txp_id :: string
  creatorId :: string
  toAddress :: string
  amount :: int
  changeAddress :: address_rec
  requiredSignatures :: int
  inputs :: "input list"
  message :: "string option"
  encryptedMessage :: "string option"
  actions :: "action list"

text \<open>
  The body of a response, as the transport hands it over (\<open>json: true\<close>). The shapes of
  the wire contract are constructors of their own; \<open>Json\<close> is any other JSON value, one
  that has none of the fields \<open>wallet\<close>, \<open>walletId\<close> and \<open>pendingTxps\<close>.
\<close>

datatype body =
    Undefined
  | Json json
  | WalletCreated string
  | WalletStatus wallet_info "txp list option"
  | AddressBody address_rec
  | AddressList "address_rec list"
  | TxpList "txp list"

record request =
  req_relUrl :: string
  x_identity :: "string option"
  x_signature :: "string option"
  req_method :: string
  req_url :: string
  req_body :: json

datatype response =
    TransportFailure string
  | Response nat body

text \<open>
  What a callback receives as \<open>err\<close>: a plain string, a ServerCompromisedError, the
  object built by \<open>_parseError\<close>, the error of the transport or of the storage, or an
  exception that the source catches and passes on. \<open>Thrown\<close> is an exception that
  nothing catches, so that the callback is never called. \<open>Unmodelled\<close> marks a 200 body
  or an import text whose shape the types above do not cover at the place where the
  source would go on with it; no theorem says what the source does there.
\<close>

datatype error =
    Message string
  | ServerCompromised string
  | ServerError json json
  | TransportError string
  | StorageError string
  | Caught string
  | Thrown string
  | Unmodelled

record tx_signature =
  inputIndex :: nat
  signature :: string

text \<open>The transaction that signTxProposal builds: the calls of from, to and change.\<close>

record transaction =
  tx_from :: "(input \<times> string list \<times> int) list"
  tx_to :: "string \<times> int"
  tx_change :: string

text \<open>The effects that the claims count.\<close>

datatype event =
    Sent request
  | Save wallet
  | Derive string
  | GetSignatures string

datatype storage_state =
    Unreadable string
  | NotFound
  | Holds wallet

record world =
  storage :: storage_state
  trace :: "event list"

record secret_data =
  sec_walletId :: string
  sec_walletPrivKey :: string
  sec_network :: string

record env =
  baseUrl :: string
  basePath :: string
  transport :: "event list \<Rightarrow> request \<Rightarrow> response"
  save_error :: "wallet \<Rightarrow> string option"
  getName :: string
  JSON_stringify :: "json \<Rightarrow> string"
  JSON_parse :: "string \<Rightarrow> json option"
  signMessage :: "string \<Rightarrow> string \<Rightarrow> string"
  encryptMessage :: "string \<Rightarrow> string option \<Rightarrow> string"
  decryptMessage :: "string \<Rightarrow> string option \<Rightarrow> string option"
  getProposalHash :: "string \<Rightarrow> int \<Rightarrow> string option \<Rightarrow> string"
  xPubToCopayerId :: "string \<Rightarrow> string"
  toSecret :: "string option \<Rightarrow> string \<Rightarrow> string \<Rightarrow> string"
  fromSecret :: "string \<Rightarrow> string + secret_data"
  accessFromData :: "wallet \<Rightarrow> string"
  checkCopayers :: "copayer list \<Rightarrow> string option \<Rightarrow> string option \<Rightarrow> int option \<Rightarrow> bool"
  checkAddress :: "wallet \<Rightarrow> body \<Rightarrow> bool"
  checkTxProposal :: "wallet \<Rightarrow> txp \<Rightarrow> bool"
  new_HDPrivateKey :: "string \<Rightarrow> string"
  new_PrivateKey :: string
  HDPrivateKey :: "string option \<Rightarrow> string \<Rightarrow> string"
  HDPublicKey :: "string option \<Rightarrow> string"
  derive :: "string \<Rightarrow> string \<Rightarrow> string"
  toPublicKey :: "string \<Rightarrow> string"
  sha256_key :: "string \<Rightarrow> string"
  address_network :: "string \<Rightarrow> string"
  getSignatures :: "transaction \<Rightarrow> string \<Rightarrow> tx_signature list"

type_synonym 'a outcome = "(error + 'a) \<times> world"

subsection \<open>JavaScript values\<close>

definition truthy_str :: "string option \<Rightarrow> bool" where
  "truthy_str s = (case s of None \<Rightarrow> False | Some v \<Rightarrow> v \<noteq> [])"

definition truthy_num :: "int option \<Rightarrow> bool" where
  "truthy_num k = (case k of None \<Rightarrow> False | Some v \<Rightarrow> v \<noteq> 0)"

fun truthy :: "json \<Rightarrow> bool" where
  "truthy JNull = False"
| "truthy (JBool b) = b"
| "truthy (JNum k) = (k \<noteq> 0)"
| "truthy (JStr s) = (s \<noteq> [])"
| "truthy (JArr xs) = True"
| "truthy (JObj fs) = True"

text \<open>String concatenation with a value that may be \<open>undefined\<close>.\<close>

definition js_string :: "string option \<Rightarrow> string" where
  "js_string s = (case s of None \<Rightarrow> ''undefined'' | Some v \<Rightarrow> v)"

text \<open>\<open>toLowerCase\<close> on the letters of ASCII; the methods of the source have no others.\<close>

definition lower_char :: "char \<Rightarrow> char" where
  "lower_char c =
     (case map_of (zip ''ABCDEFGHIJKLMNOPQRSTUVWXYZ'' ''abcdefghijklmnopqrstuvwxyz'') c of
        Some d \<Rightarrow> d
      | None \<Rightarrow> c)"

definition toLowerCase :: "string \<Rightarrow> string" where
  "toLowerCase s = map lower_char s"

text \<open>
  An object literal whose property values may be \<open>undefined\<close>: JSON.stringify leaves
  such properties out, so the request body does not have them.
\<close>

fun object :: "(string \<times> json option) list \<Rightarrow> (string \<times> json) list" where
  "object [] = []"
| "object ((k, None) # fs) = object fs"
| "object ((k, Some v) # fs) = (k, v) # object fs"

definition str_or_null :: "string option \<Rightarrow> json" where
  "str_or_null s = (case s of None \<Rightarrow> JNull | Some v \<Rightarrow> JStr v)"

definition num_or_null :: "int option \<Rightarrow> json" where
  "num_or_null k = (case k of None \<Rightarrow> JNull | Some v \<Rightarrow> JNum v)"

subsection \<open>Messages\<close>

definition encryptMessage' :: "env \<Rightarrow> string option \<Rightarrow> string option \<Rightarrow> string option" where
  "encryptMessage' e msg encryptingKey =
     (if \<not> truthy_str msg then None
      else Some (encryptMessage e (js_string msg) encryptingKey))"

definition decryptMessage' :: "env \<Rightarrow> string option \<Rightarrow> string option \<Rightarrow> string" where
  "decryptMessage' e msg encryptingKey =
     (if \<not> truthy_str msg then []
      else (case decryptMessage e (js_string msg) encryptingKey of
              Some t \<Rightarrow> t
            | None \<Rightarrow> ''<ECANNOTDECRYPT>''))"

definition processTxp :: "env \<Rightarrow> string option \<Rightarrow> txp \<Rightarrow> txp" where
  "processTxp e encryptingKey t =
     t\<lparr>encryptedMessage := message t,
       message := Some (decryptMessage' e (message t) encryptingKey),
       actions := map (\<lambda>a. a\<lparr>comment := Some (decryptMessage' e (comment a) encryptingKey)\<rparr>)
                      (actions t)\<rparr>"

definition processTxps :: "env \<Rightarrow> txp list \<Rightarrow> string option \<Rightarrow> txp list" where
  "processTxps e txps encryptingKey = map (processTxp e encryptingKey) txps"

subsection \<open>Errors of the service\<close>

text \<open>
  \<open>body.code\<close> and \<open>body.error\<close>: a property of \<open>undefined\<close> or \<open>null\<close> cannot be read;
  of the other values only an object has the two properties.
\<close>

definition body_property :: "body \<Rightarrow> string \<Rightarrow> error + json option" where
  "body_property b k =
     (case b of
        Undefined \<Rightarrow> Inl (Thrown ''TypeError'')
      | Json JNull \<Rightarrow> Inl (Thrown ''TypeError'')
      | Json (JObj fs) \<Rightarrow> Inr (map_of fs k)
      | _ \<Rightarrow> Inr None)"

definition or_default :: "json option \<Rightarrow> string \<Rightarrow> json" where
  "or_default v d = (case v of None \<Rightarrow> JStr d | Some j \<Rightarrow> if truthy j then j else JStr d)"

definition parseError :: "env \<Rightarrow> body \<Rightarrow> error" where
  "parseError e b =
     (let b' = (case b of
                  Json (JStr s) \<Rightarrow>
                    (case JSON_parse e s of
                       Some j \<Rightarrow> Json j
                     | None \<Rightarrow> Json (JObj [(''error'', JStr s)]))
                | _ \<Rightarrow> b)
      in case body_property b' ''code'' of
           Inl x \<Rightarrow> x
         | Inr c \<Rightarrow>
             (case body_property b' ''error'' of
                Inl x \<Rightarrow> x
              | Inr m \<Rightarrow> ServerError (or_default c ''ERROR'')
                          (or_default m ''There was an unknown error processing the request'')))"

subsection \<open>Requests\<close>

definition signRequest :: "env \<Rightarrow> string \<Rightarrow> string \<Rightarrow> json \<Rightarrow> string \<Rightarrow> string" where
  "signRequest e method url args privKey =
     signMessage e (toLowerCase method @ ''|'' @ url @ ''|'' @ JSON_stringify e args) privKey"

definition reqSignature :: "env \<Rightarrow> string \<Rightarrow> string \<Rightarrow> json \<Rightarrow> wallet \<Rightarrow> string option" where
  "reqSignature e method url args data =
     (if method = ''get'' then
        (if truthy_str (roPrivKey data)
         then Some (signRequest e method url args (js_string (roPrivKey data))) else None)
      else
        (if truthy_str (rwPrivKey data)
         then Some (signRequest e method url args (js_string (rwPrivKey data))) else None))"

definition make_request :: "env \<Rightarrow> string \<Rightarrow> string \<Rightarrow> json \<Rightarrow> wallet \<Rightarrow> request" where
  "make_request e method url args data =
     \<lparr>req_relUrl = basePath e @ url,
      x_identity = copayerId data,
      x_signature = reqSignature e method url args data,
      req_method = method,
      req_url = baseUrl e @ url,
      req_body = args\<rparr>"

definition doRequest :: "env \<Rightarrow> string \<Rightarrow> string \<Rightarrow> json \<Rightarrow> wallet \<Rightarrow> world \<Rightarrow> body outcome" where
  "doRequest e method url args data w =
     (let req = make_request e method url args data;
          w' = w\<lparr>trace := trace w @ [Sent req]\<rparr>
      in case transport e (trace w) req of
           TransportFailure err \<Rightarrow> (Inl (TransportError err), w')
         | Response statusCode b \<Rightarrow>
             if statusCode \<noteq> 200 then (Inl (parseError e b), w') else (Inr b, w'))"

definition doPostRequest :: "env \<Rightarrow> string \<Rightarrow> json \<Rightarrow> wallet \<Rightarrow> world \<Rightarrow> body outcome" where
  "doPostRequest e url args data w = doRequest e ''post'' url args data w"

definition doGetRequest :: "env \<Rightarrow> string \<Rightarrow> wallet \<Rightarrow> world \<Rightarrow> body outcome" where
  "doGetRequest e url data w = doRequest e ''get'' url (JObj []) data w"

subsection \<open>Storage\<close>

text \<open>
  \<open>storage.load\<close> calls back with \<open>(err, data)\<close>; \<open>storage.save\<close> either stores the
  whole object or fails and stores nothing.
\<close>

definition storage_load :: "world \<Rightarrow> string option \<times> wallet option" where
  "storage_load w =
     (case storage w of
        Unreadable err \<Rightarrow> (Some err, None)
      | NotFound \<Rightarrow> (None, None)
      | Holds data \<Rightarrow> (None, Some data))"

definition save :: "env \<Rightarrow> wallet \<Rightarrow> world \<Rightarrow> string option \<times> world" where
  "save e data w =
     (case save_error e data of
        Some err \<Rightarrow> (Some err, w\<lparr>trace := trace w @ [Save data]\<rparr>)
      | None \<Rightarrow> (None, w\<lparr>storage := Holds data, trace := trace w @ [Save data]\<rparr>))"

definition load :: "world \<Rightarrow> error + wallet" where
  "load w =
     (case storage_load w of
        (Some err, _) \<Rightarrow> Inl (StorageError err)
      | (None, None) \<Rightarrow> Inl (Message ''Wallet file not found.'')
      | (None, Some data) \<Rightarrow> Inr data)"

subsection \<open>Completing the wallet\<close>

text \<open>\<open>ret.wallet\<close>, read from a response body.\<close>

definition body_wallet :: "body \<Rightarrow> error + wallet_info option" where
  "body_wallet b =
     (case b of
        Undefined \<Rightarrow> Inl (Thrown ''TypeError'')
      | Json JNull \<Rightarrow> Inl (Thrown ''TypeError'')
      | WalletStatus wi _ \<Rightarrow> Inr (Some wi)
      | _ \<Rightarrow> Inr None)"

definition pluck_xPubKey :: "copayer list \<Rightarrow> string list" where
  "pluck_xPubKey cs = map xPubKey cs"

definition tryToComplete :: "env \<Rightarrow> wallet \<Rightarrow> world \<Rightarrow> wallet outcome" where
  "tryToComplete e data w =
     (case doGetRequest e ''/v1/wallets/'' data w of
        (Inl err, w1) \<Rightarrow> (Inl err, w1)
      | (Inr ret, w1) \<Rightarrow>
          (case body_wallet ret of
             Inl err \<Rightarrow> (Inl err, w1)
           | Inr None \<Rightarrow> (Inl (Thrown ''TypeError''), w1)
           | Inr (Some wi) \<Rightarrow>
               if status wi \<noteq> ''complete'' then (Inl (Message ''Wallet Incomplete''), w1)
               else if \<not> checkCopayers e (copayers wi) (walletPrivKey data) (xPrivKey data)
                            (data_n data)
               then (Inl (ServerCompromised
                 ''Copayers in the wallet could not be verified to have known the wallet secret''),
                     w1)
               else
                 (let data' = data\<lparr>publicKeyRing := Some (pluck_xPubKey (copayers wi))\<rparr>
                  in case save e data' w1 of
                       (Some err, w2) \<Rightarrow> (Inl (StorageError err), w2)
                     | (None, w2) \<Rightarrow> (Inr data', w2))))"

definition pkrComplete :: "wallet \<Rightarrow> bool" where
  "pkrComplete data =
     (case publicKeyRing data of
        None \<Rightarrow> False
      | Some ring \<Rightarrow> truthy_num (data_m data) \<and> data_n data = Some (int (length ring)))"

definition n_gt_1 :: "int option \<Rightarrow> bool" where
  "n_gt_1 k = (case k of None \<Rightarrow> False | Some v \<Rightarrow> v > 1)"

definition loadAndCheck :: "env \<Rightarrow> world \<Rightarrow> wallet outcome" where
  "loadAndCheck e w =
     (case load w of
        Inl err \<Rightarrow> (Inl err, w)
      | Inr data \<Rightarrow>
          if n_gt_1 (data_n data) \<and> \<not> pkrComplete data then tryToComplete e data w
          else (Inr data, w))"

text \<open>
  The pattern \<open>this._loadAndCheck(function(err, data) { if (err) return cb(err); ... })\<close>:
  the rest of the operation runs on the data that \<open>_loadAndCheck\<close> hands over.
\<close>

definition loadAndCheck_then ::
  "env \<Rightarrow> (wallet \<Rightarrow> world \<Rightarrow> 'a outcome) \<Rightarrow> world \<Rightarrow> 'a outcome" where
  "loadAndCheck_then e k w =
     (case loadAndCheck e w of
        (Inl err, w1) \<Rightarrow> (Inl err, w1)
      | (Inr data, w1) \<Rightarrow> k data w1)"

subsection \<open>Creating and joining a wallet\<close>

definition initData :: "env \<Rightarrow> string \<Rightarrow> string \<Rightarrow> int option \<Rightarrow> int option \<Rightarrow> wallet" where
  "initData e net wPrivKey m n =
     (let xPriv = new_HDPrivateKey e net;
          xPub = HDPublicKey e (Some xPriv)
      in \<lparr>copayerId = Some (xPubToCopayerId e xPub),
          xPrivKey = Some xPriv,
          publicKeyRing = Some [xPub],
          network = Some net,
          data_m = m,
          data_n = n,
          roPrivKey = Some (derive e xPriv ''m/1/0''),
          rwPrivKey = Some (derive e xPriv ''m/1/1''),
          walletPrivKey = Some wPrivKey,
          sharedEncryptingKey = Some (sha256_key e wPrivKey)\<rparr>)"

text \<open>\<open>data.publicKeyRing[0]\<close>, for a ring that is there.\<close>

definition ring_first :: "wallet \<Rightarrow> string option" where
  "ring_first data =
     (case publicKeyRing data of
        Some (x # _) \<Rightarrow> Some x
      | _ \<Rightarrow> None)"

definition doJoinWallet ::
  "env \<Rightarrow> string option \<Rightarrow> string \<Rightarrow> string \<Rightarrow> string \<Rightarrow> world \<Rightarrow> wallet_info option outcome" where
  "doJoinWallet e walletId wPrivKey xPub name w =
     (let args = JObj (object
            [(''walletId'', map_option JStr walletId),
             (''name'', Some (JStr name)),
             (''xPubKey'', Some (JStr xPub)),
             (''xPubKeySignature'', Some (JStr (signMessage e xPub wPrivKey)))]);
          url = ''/v1/wallets/'' @ js_string walletId @ ''/copayers''
      in case doPostRequest e url args empty_data w of
           (Inl err, w1) \<Rightarrow> (Inl err, w1)
         | (Inr b, w1) \<Rightarrow>
             (case body_wallet b of
                Inl err \<Rightarrow> (Inl err, w1)
              | Inr wi \<Rightarrow> (Inr wi, w1)))"

text \<open>\<open>body.walletId\<close>, read from a response body.\<close>

definition body_walletId :: "body \<Rightarrow> error + string option" where
  "body_walletId b =
     (case b of
        Undefined \<Rightarrow> Inl (Thrown ''TypeError'')
      | Json JNull \<Rightarrow> Inl (Thrown ''TypeError'')
      | WalletCreated walletId \<Rightarrow> Inr (Some walletId)
      | _ \<Rightarrow> Inr None)"

definition createWallet_args ::
  "env \<Rightarrow> string \<Rightarrow> int option \<Rightarrow> int option \<Rightarrow> string \<Rightarrow> string option \<Rightarrow> json" where
  "createWallet_args e walletName m n wPrivKey net =
     JObj (object
       [(''name'', Some (JStr walletName)),
        (''m'', map_option JNum m),
        (''n'', map_option JNum n),
        (''pubKey'', Some (JStr (toPublicKey e wPrivKey))),
        (''network'', map_option JStr net)])"

definition createWallet ::
  "env \<Rightarrow> string \<Rightarrow> string \<Rightarrow> int option \<Rightarrow> int option \<Rightarrow> string option \<Rightarrow> world
     \<Rightarrow> string option outcome" where
  "createWallet e walletName name m n net0 w =
     (let net = (if truthy_str net0 then js_string net0 else ''livenet'')
      in if net \<notin> set [''testnet'', ''livenet''] then (Inl (Message ''Invalid network''), w)
      else
        (case storage_load w of
           (_, Some _) \<Rightarrow> (Inl (Message (getName e @ '' already contains a wallet'')), w)
         | (_, None) \<Rightarrow>
             (let wPrivKey = new_PrivateKey e
              in case doPostRequest e ''/v1/wallets/''
                        (createWallet_args e walletName m n wPrivKey (Some net)) empty_data w of
                   (Inl err, w1) \<Rightarrow> (Inl err, w1)
                 | (Inr b, w1) \<Rightarrow>
                     (case body_walletId b of
                        Inl err \<Rightarrow> (Inl err, w1)
                      | Inr walletId \<Rightarrow>
                          (let secret = toSecret e walletId wPrivKey net;
                               data = initData e net wPrivKey m n
                           in case doJoinWallet e walletId wPrivKey
                                     (js_string (ring_first data)) name w1 of
                                (Inl err, w2) \<Rightarrow> (Inl err, w2)
                              | (Inr _, w2) \<Rightarrow>
                                  (case save e data w2 of
                                     (Some err, w3) \<Rightarrow> (Inl (StorageError err), w3)
                                   | (None, w3) \<Rightarrow>
                                       (Inr (if n_gt_1 n then Some secret else None), w3)))))))"






definition joinWallet :: "env \<Rightarrow> string \<Rightarrow> string \<Rightarrow> world \<Rightarrow> unit outcome" where
  "joinWallet e secret name w =
     (case storage_load w of
        (_, Some _) \<Rightarrow> (Inl (Message ''Storage already contains a wallet''), w)
      | (_, None) \<Rightarrow>
          (case fromSecret e secret of
             Inl ex \<Rightarrow> (Inl (Caught ex), w)
           | Inr secretData \<Rightarrow>
               (let data = initData e (sec_network secretData) (sec_walletPrivKey secretData)
                             None None
                in case doJoinWallet e (Some (sec_walletId secretData))
                          (sec_walletPrivKey secretData)
                          (js_string (ring_first data)) name w of
                     (Inl err, w1) \<Rightarrow> (Inl err, w1)
                   | (Inr None, w1) \<Rightarrow> (Inl (Thrown ''TypeError''), w1)
                   | (Inr (Some wi), w1) \<Rightarrow>
                       (let data' = data\<lparr>data_m := info_m wi, data_n := info_n wi\<rparr>
                        in case save e data' w1 of
                             (Some err, w2) \<Rightarrow> (Inl (StorageError err), w2)
                           | (None, w2) \<Rightarrow> (Inr (), w2)))))"

subsection \<open>Status, proposals, addresses, balance\<close>

text \<open>
  The callback of getStatus reads \<open>result.pendingTxps\<close> before it looks at \<open>err\<close>. When
  the request failed, \<open>result\<close> is \<open>undefined\<close> and the read throws; so does the loop of
  \<open>_processTxps\<close> over \<open>[undefined]\<close> when the body has no \<open>pendingTxps\<close>.
\<close>

definition getStatus_cb :: "env \<Rightarrow> wallet \<Rightarrow> error + body \<Rightarrow> error + body \<times> string option" where
  "getStatus_cb e data r =
     (case r of
        Inl err \<Rightarrow> Inl (Thrown ''TypeError'')
      | Inr (WalletStatus wi (Some txps)) \<Rightarrow>
          Inr (WalletStatus wi (Some (processTxps e txps (sharedEncryptingKey data))),
               copayerId data)
      | Inr _ \<Rightarrow> Inl (Thrown ''TypeError''))"

definition getStatus :: "env \<Rightarrow> world \<Rightarrow> (body \<times> string option) outcome" where
  "getStatus e w =
     (case load w of
        Inl err \<Rightarrow> (Inl err, w)
      | Inr data \<Rightarrow>
          (case doGetRequest e ''/v1/wallets/'' data w of
             (r, w1) \<Rightarrow> (getStatus_cb e data r, w1)))"

definition sendTxProposal_args :: "env \<Rightarrow> string \<Rightarrow> int \<Rightarrow> string option \<Rightarrow> wallet \<Rightarrow> json" where
  "sendTxProposal_args e toAddr amt msg data =
     (let encrypted = encryptMessage' e msg (sharedEncryptingKey data);
          hash = getProposalHash e toAddr amt encrypted;
          proposalSignature = signMessage e hash (js_string (rwPrivKey data))
      in JObj [(''toAddress'', JStr toAddr),
               (''amount'', JNum amt),
               (''message'', str_or_null encrypted),
               (''proposalSignature'', JStr proposalSignature)])"

definition sendTxProposal_cb ::
  "env \<Rightarrow> string \<Rightarrow> int \<Rightarrow> string option \<Rightarrow> wallet \<Rightarrow> world \<Rightarrow> body outcome" where
  "sendTxProposal_cb e toAddr amt msg data w =
     (if \<not> truthy_str (rwPrivKey data) then (Inl (Message ''No key to generate proposals''), w)
      else doPostRequest e ''/v1/txproposals/'' (sendTxProposal_args e toAddr amt msg data) data w)"

definition sendTxProposal ::
  "env \<Rightarrow> string \<Rightarrow> int \<Rightarrow> string option \<Rightarrow> world \<Rightarrow> body outcome" where
  "sendTxProposal e toAddr amt msg w =
     loadAndCheck_then e (sendTxProposal_cb e toAddr amt msg) w"



text \<open>
  \<open>_.any(addresses, ...)\<close> runs over the elements of an array and over nothing when
  \<open>addresses\<close> is \<open>undefined\<close>.
\<close>

definition getMainAddresses_cb :: "env \<Rightarrow> bool \<Rightarrow> wallet \<Rightarrow> world \<Rightarrow> body outcome" where
  "getMainAddresses_cb e doNotVerify data w =
     (case doGetRequest e ''/v1/addresses/'' data w of
        (Inl err, w1) \<Rightarrow> (Inl err, w1)
      | (Inr addresses, w1) \<Rightarrow>
          if doNotVerify then (Inr addresses, w1)
          else
            (case addresses of
               Undefined \<Rightarrow> (Inr addresses, w1)
             | AddressList as \<Rightarrow>
                 if list_ex (\<lambda>a. \<not> checkAddress e data (AddressBody a)) as
                 then (Inl (ServerCompromised ''Server sent fake address''), w1)
                 else (Inr addresses, w1)
             | Json (JArr js) \<Rightarrow>
                 if list_ex (\<lambda>j. \<not> checkAddress e data (Json j)) js
                 then (Inl (ServerCompromised ''Server sent fake address''), w1)
                 else (Inr addresses, w1)
             | _ \<Rightarrow> (Inl Unmodelled, w1)))"

definition getMainAddresses :: "env \<Rightarrow> bool \<Rightarrow> world \<Rightarrow> body outcome" where
  "getMainAddresses e doNotVerify w = loadAndCheck_then e (getMainAddresses_cb e doNotVerify) w"

definition getBalance_cb :: "env \<Rightarrow> wallet \<Rightarrow> world \<Rightarrow> body outcome" where
  "getBalance_cb e data w = doGetRequest e ''/v1/balance/'' data w"

definition getBalance :: "env \<Rightarrow> world \<Rightarrow> body outcome" where
  "getBalance e w = loadAndCheck_then e (getBalance_cb e) w"


text \<open>
  With a body that is \<open>undefined\<close>, \<open>JSON.parse(JSON.stringify(txps))\<close> throws when the
  raw proposals are asked for, and the loop of \<open>_processTxps\<close> over \<open>[undefined]\<close> throws
  when they are not.
\<close>

definition getTxProposals_cb ::
  "env \<Rightarrow> bool \<Rightarrow> bool \<Rightarrow> wallet \<Rightarrow> world \<Rightarrow> (txp list \<times> txp list option) outcome" where
  "getTxProposals_cb e doNotVerify getRawTxps data w =
     (case doGetRequest e ''/v1/txproposals/'' data w of
        (Inl err, w1) \<Rightarrow> (Inl err, w1)
      | (Inr b, w1) \<Rightarrow>
          (case b of
             Undefined \<Rightarrow> (Inl (Thrown (if getRawTxps then ''SyntaxError'' else ''TypeError'')), w1)
           | TxpList txps \<Rightarrow>
               (let rawTxps = (if getRawTxps then Some txps else None);
                    txps' = processTxps e txps (sharedEncryptingKey data)
                in if list_ex (\<lambda>t. \<not> doNotVerify \<and> \<not> checkTxProposal e data t) txps'
                   then (Inl (ServerCompromised ''Server sent fake transaction proposal''), w1)
                   else (Inr (txps', rawTxps), w1))
           | _ \<Rightarrow> (Inl Unmodelled, w1)))"

definition getTxProposals ::
  "env \<Rightarrow> bool \<Rightarrow> bool \<Rightarrow> world \<Rightarrow> (txp list \<times> txp list option) outcome" where
  "getTxProposals e doNotVerify getRawTxps w =
     loadAndCheck_then e (getTxProposals_cb e doNotVerify getRawTxps) w"

subsection \<open>Export and import\<close>

definition WALLET_CRITICAL_DATA :: "string list" where
  "WALLET_CRITICAL_DATA = [''xPrivKey'', ''m'', ''publicKeyRing'', ''sharedEncryptingKey'']"

definition WALLET_EXTRA_DATA :: "string list" where
  "WALLET_EXTRA_DATA = [''copayerId'', ''roPrivKey'', ''rwPrivKey'']"

text \<open>
  \<open>data[k]\<close> as an element of the exported array: JSON.stringify writes \<open>null\<close> for an
  element that is \<open>undefined\<close>.
\<close>

definition wallet_field :: "wallet \<Rightarrow> string \<Rightarrow> json" where
  "wallet_field data k =
     (if k = ''xPrivKey'' then str_or_null (xPrivKey data)
      else if k = ''m'' then num_or_null (data_m data)
      else if k = ''publicKeyRing'' then
        (case publicKeyRing data of None \<Rightarrow> JNull | Some ring \<Rightarrow> JArr (map JStr ring))
      else if k = ''sharedEncryptingKey'' then str_or_null (sharedEncryptingKey data)
      else JNull)"

text \<open>\<open>_.without(array, value)\<close>; the empty array when \<open>array\<close> is \<open>undefined\<close>.\<close>

definition without :: "'a list option \<Rightarrow> 'a \<Rightarrow> 'a list" where
  "without xs v = (case xs of None \<Rightarrow> [] | Some ys \<Rightarrow> removeAll v ys)"

definition export_entry :: "string \<Rightarrow> wallet \<Rightarrow> string \<Rightarrow> string \<Rightarrow> json" where
  "export_entry access data myXPubKey k =
     (if access \<noteq> ''full'' \<and> k = ''xPrivKey'' then JNull
      else if access = ''full'' \<and> k = ''publicKeyRing''
           then JArr (map JStr (without (publicKeyRing data) myXPubKey))
      else wallet_field data k)"

definition export_array :: "env \<Rightarrow> string \<Rightarrow> wallet \<Rightarrow> json list" where
  "export_array e access data =
     (let myXPubKey = HDPublicKey e (xPrivKey data)
      in map (export_entry access data myXPubKey) WALLET_CRITICAL_DATA
         @ (if access \<noteq> ''full''
            then [str_or_null (copayerId data), str_or_null (roPrivKey data)]
                 @ (if access = ''readwrite'' then [str_or_null (rwPrivKey data)] else [])
            else []))"

definition export_cb :: "env \<Rightarrow> string option \<Rightarrow> wallet \<Rightarrow> world \<Rightarrow> string outcome" where
  "export_cb e access0 data w =
     (let access = (if truthy_str access0 then js_string access0 else ''full'')
      in (Inr (JSON_stringify e (JArr (export_array e access data))), w))"

definition export :: "env \<Rightarrow> string option \<Rightarrow> world \<Rightarrow> string outcome" where
  "export e access0 w = loadAndCheck_then e (export_cb e access0) w"

text \<open>
  \<open>inData[i]\<close>, and the values that import takes from it. An entry that is missing or
  \<open>null\<close> leaves the field empty; an entry of a JSON type that export never writes at
  that place is not modelled.
\<close>

definition nth_opt :: "'a list \<Rightarrow> nat \<Rightarrow> 'a option" where
  "nth_opt xs i = (if i < length xs then Some (xs ! i) else None)"

definition sum_bind :: "'e + 'a \<Rightarrow> ('a \<Rightarrow> 'e + 'b) \<Rightarrow> 'e + 'b" where
  "sum_bind x f = (case x of Inl err \<Rightarrow> Inl err | Inr v \<Rightarrow> f v)"

fun as_string :: "json option \<Rightarrow> error + string option" where
  "as_string None = Inr None"
| "as_string (Some JNull) = Inr None"
| "as_string (Some (JStr s)) = Inr (Some s)"
| "as_string (Some _) = Inl Unmodelled"

fun as_num :: "json option \<Rightarrow> error + int option" where
  "as_num None = Inr None"
| "as_num (Some JNull) = Inr None"
| "as_num (Some (JNum k)) = Inr (Some k)"
| "as_num (Some _) = Inl Unmodelled"

fun all_strings :: "json list \<Rightarrow> string list option" where
  "all_strings [] = Some []"
| "all_strings (JStr s # js) = map_option ((#) s) (all_strings js)"
| "all_strings (_ # js) = None"

fun as_ring :: "json option \<Rightarrow> error + string list option" where
  "as_ring None = Inr None"
| "as_ring (Some JNull) = Inr None"
| "as_ring (Some (JArr js)) =
     (case all_strings js of None \<Rightarrow> Inl Unmodelled | Some ring \<Rightarrow> Inr (Some ring))"
| "as_ring (Some _) = Inl Unmodelled"

definition import_data :: "json list \<Rightarrow> error + wallet" where
  "import_data inData =
     sum_bind (as_string (nth_opt inData 0)) (\<lambda>xp.
     sum_bind (as_num (nth_opt inData 1)) (\<lambda>m.
     sum_bind (as_ring (nth_opt inData 2)) (\<lambda>ring.
     sum_bind (as_string (nth_opt inData 3)) (\<lambda>sk.
     sum_bind (as_string (nth_opt inData 4)) (\<lambda>cid.
     sum_bind (as_string (nth_opt inData 5)) (\<lambda>ro.
     sum_bind (as_string (nth_opt inData 6)) (\<lambda>rw.
       Inr \<lparr>copayerId = cid, xPrivKey = xp, publicKeyRing = ring, network = None,
            data_m = m, data_n = None, roPrivKey = ro, rwPrivKey = rw,
            walletPrivKey = None, sharedEncryptingKey = sk\<rparr>)))))))"

definition import_own_key :: "env \<Rightarrow> wallet \<Rightarrow> error + wallet" where
  "import_own_key e data =
     (if truthy_str (xPrivKey data) then
        (let xpriv = js_string (xPrivKey data);
             xPub = HDPublicKey e (Some xpriv)
         in case publicKeyRing data of
              None \<Rightarrow> Inl (Thrown ''TypeError'')
            | Some ring \<Rightarrow>
                Inr (data\<lparr>publicKeyRing := Some (xPub # ring),
                          copayerId := Some (xPubToCopayerId e xPub),
                          roPrivKey := Some (derive e xpriv ''m/1/0''),
                          rwPrivKey := Some (derive e xpriv ''m/1/1'')\<rparr>))
      else Inr data)"

definition import_finish :: "env \<Rightarrow> wallet \<Rightarrow> world \<Rightarrow> string outcome" where
  "import_finish e data0 w =
     (case import_own_key e data0 of
        Inl err \<Rightarrow> (Inl err, w)
      | Inr data1 \<Rightarrow>
          (case publicKeyRing data1 of
             None \<Rightarrow> (Inl (Thrown ''TypeError''), w)
           | Some ring \<Rightarrow>
               (let data2 = data1\<lparr>data_n := Some (int (length ring))\<rparr>
                in if \<not> truthy_str (copayerId data2) \<or> \<not> truthy_num (data_n data2)
                      \<or> \<not> truthy_num (data_m data2)
                   then (Inl (Message ''Invalid source data''), w)
                   else
                     (let data3 = data2\<lparr>network :=
                            Some (if take 4 (js_string (ring_first data2)) = ''tpub''
                                  then ''testnet'' else ''livenet'')\<rparr>
                      in case save e data3 w of
                           (Some err, w1) \<Rightarrow> (Inl (StorageError err), w1)
                         | (None, w1) \<Rightarrow> (Inr (accessFromData e data3), w1)))))"

definition "import" :: "env \<Rightarrow> string \<Rightarrow> world \<Rightarrow> string outcome" where
  "import e str w =
     (case storage_load w of
        (_, Some _) \<Rightarrow> (Inl (Message ''Storage already contains a wallet''), w)
      | (_, None) \<Rightarrow>
          (case JSON_parse e str of
             None \<Rightarrow> (Inl (Thrown ''SyntaxError''), w)
           | Some JNull \<Rightarrow> (Inl (Thrown ''TypeError''), w)
           | Some (JArr inData) \<Rightarrow>
               (case import_data inData of
                  Inl err \<Rightarrow> (Inl err, w)
                | Inr data0 \<Rightarrow> import_finish e data0 w)
           | Some _ \<Rightarrow> (Inl Unmodelled, w)))"

subsection \<open>Signing, rejecting, broadcasting and removing a proposal\<close>

text \<open>
  \<open>derived\<close> starts as \<open>{}\<close>, so \<open>derived[p]\<close> is truthy for a path already derived and
  for the names that every object inherits from \<open>Object.prototype\<close>.
\<close>

definition Object_prototype :: "string list" where
  "Object_prototype =
     [''constructor'', ''toString'', ''toLocaleString'', ''valueOf'', ''hasOwnProperty'',
      ''isPrototypeOf'', ''propertyIsEnumerable'', ''__defineGetter__'', ''__defineSetter__'',
      ''__lookupGetter__'', ''__lookupSetter__'', ''__proto__'']"

definition derived_has :: "(string \<rightharpoonup> string) \<Rightarrow> string \<Rightarrow> bool" where
  "derived_has derived p = (derived p \<noteq> None \<or> p \<in> set Object_prototype)"

fun derive_each ::
  "env \<Rightarrow> string \<Rightarrow> input list \<Rightarrow> string list \<times> (string \<rightharpoonup> string) \<times> event list
     \<Rightarrow> string list \<times> (string \<rightharpoonup> string) \<times> event list" where
  "derive_each e xpriv [] acc = acc"
| "derive_each e xpriv (i # rest) (privs, derived, evs) =
     (if \<not> derived_has derived (path i) then
        derive_each e xpriv rest
          (privs @ [derive e xpriv (path i)],
           derived(path i \<mapsto> derive e xpriv (path i)),
           evs @ [Derive (path i)])
      else derive_each e xpriv rest (privs, derived, evs))"

definition build_transaction :: "txp \<Rightarrow> transaction" where
  "build_transaction t =
     \<lparr>tx_from = map (\<lambda>i. (i, publicKeys i, requiredSignatures t)) (inputs t),
      tx_to = (toAddress t, amount t),
      tx_change = address (changeAddress t)\<rparr>"

definition sorted_signatures :: "env \<Rightarrow> transaction \<Rightarrow> string list \<Rightarrow> tx_signature list" where
  "sorted_signatures e t privs = sort_key inputIndex (concat (map (getSignatures e t) privs))"

definition signTxProposal_cb :: "env \<Rightarrow> txp \<Rightarrow> wallet \<Rightarrow> world \<Rightarrow> body outcome" where
  "signTxProposal_cb e t data w =
     (if \<not> checkTxProposal e data t
      then (Inl (ServerCompromised ''Server sent fake transaction proposal''), w)
      else
        (let net = address_network e (toAddress t);
             xpriv = HDPrivateKey e (xPrivKey data) net
         in case derive_each e xpriv (inputs t) ([], Map.empty, []) of
              (privs, derived, evs) \<Rightarrow>
                (let tx = build_transaction t;
                     signatures = sorted_signatures e tx privs;
                     args = JObj [(''signatures'', JArr (map (\<lambda>s. JStr (signature s)) signatures))];
                     w1 = w\<lparr>trace := trace w @ evs @ map GetSignatures privs\<rparr>
                 in doPostRequest e (''/v1/txproposals/'' @ txp_id t @ ''/signatures/'')
                      args data w1)))"

definition signTxProposal :: "env \<Rightarrow> txp \<Rightarrow> world \<Rightarrow> body outcome" where
  "signTxProposal e t w =
     (if creatorId t = [] then (Inl (Thrown ''Invalid Argument''), w)
      else loadAndCheck_then e (signTxProposal_cb e t) w)"







subsection \<open>The operations of the API\<close>


definition forget :: "'a outcome \<Rightarrow> error option \<times> world" where
  "forget r = (case r of (Inl err, w) \<Rightarrow> (Some err, w) | (Inr _, w) \<Rightarrow> (None, w))"


section \<open>Notions used in the statements\<close>

text \<open>
  The request of the repair (\<open>_tryToComplete\<close>), the wallet data after the ring of the
  service has been adopted, and the condition under which \<open>_loadAndCheck\<close> repairs.
\<close>

definition repair_request :: "env \<Rightarrow> wallet \<Rightarrow> request" where
  "repair_request e d = make_request e ''get'' ''/v1/wallets/'' (JObj []) d"

definition adopt :: "wallet \<Rightarrow> wallet_info \<Rightarrow> wallet" where
  "adopt d wi = d\<lparr>publicKeyRing := Some (pluck_xPubKey (copayers wi))\<rparr>"

definition incomplete :: "wallet \<Rightarrow> bool" where
  "incomplete d = (n_gt_1 (data_n d) \<and> \<not> pkrComplete d)"

text \<open>
  The events of cosigning: a key derivation, a call of \<open>getSignatures\<close>, and a request
  that is not a \<open>get\<close> (the submission). Loading, repairing and saving are not among them.
\<close>

fun signing_event :: "event \<Rightarrow> bool" where
  "signing_event (Derive p) = True"
| "signing_event (GetSignatures k) = True"
| "signing_event (Sent r) = (req_method r \<noteq> ''get'')"
| "signing_event (Save d) = False"

text \<open>The events that an operation has added to the log of a world.\<close>

definition new_events :: "world \<Rightarrow> world \<Rightarrow> event list" where
  "new_events w w' = drop (length (trace w)) (trace w')"


text \<open>A step that leaves the storage as it is and only adds to the log.\<close>

definition logs_only :: "world \<Rightarrow> world \<Rightarrow> bool" where
  "logs_only w w' = (storage w' = storage w \<and> take (length (trace w)) (trace w') = trace w)"





section \<open>An example wallet, service and proposal\<close>

text \<open>
  Copayer A of a 2-of-2 wallet, before and after the ring is complete, with stand-ins
  for the library: a signature names its key and message, a derived key names its parent
  and path, and a key signs the inputs whose path it was derived at.
\<close>

definition wallet_A :: wallet where
  "wallet_A =
     \<lparr>copayerId = Some ''id-xpubA'', xPrivKey = Some ''xprvA'',
      publicKeyRing = Some [''xpubA''], network = Some ''livenet'',
      data_m = Some 2, data_n = Some 2, roPrivKey = Some ''xprvA/m/1/0'',
      rwPrivKey = Some ''xprvA/m/1/1'', walletPrivKey = Some ''wpk'',
      sharedEncryptingKey = Some ''shared''\<rparr>"

definition wallet_AB :: wallet where
  "wallet_AB = wallet_A\<lparr>publicKeyRing := Some [''xpubA'', ''xpubB'']\<rparr>"

fun sign_inputs :: "string \<Rightarrow> nat \<Rightarrow> (input \<times> string list \<times> int) list \<Rightarrow> tx_signature list" where
  "sign_inputs k j [] = []"
| "sign_inputs k j ((i, pks, r) # rest) =
     (if k = ''xprvA/'' @ path i
      then [\<lparr>inputIndex = j, signature = ''der-'' @ txid i\<rparr>] else [])
     @ sign_inputs k (Suc j) rest"

definition example_export :: json where
  "example_export = JArr [JStr ''xprvA'', JNum 2, JArr [JStr ''xpubB''], JStr ''shared'']"

definition example_env :: "(event list \<Rightarrow> request \<Rightarrow> response) \<Rightarrow> env" where
  "example_env service =
     \<lparr>baseUrl = ''http://localhost:3001/copay/api'',
      basePath = ''/copay/api'',
      transport = service,
      save_error = (\<lambda>d. None),
      getName = ''wallet.dat'',
      JSON_stringify = (\<lambda>j. if j = example_export then ''[xprvA,2,[xpubB],shared]'' else ''{}''),
      JSON_parse = (\<lambda>s. if s = ''[xprvA,2,[xpubB],shared]'' then Some example_export else None),
      signMessage = (\<lambda>msg k. k @ '':'' @ msg),
      encryptMessage = (\<lambda>msg k. ''enc:'' @ msg),
      decryptMessage = (\<lambda>msg k. Some (drop 4 msg)),
      getProposalHash = (\<lambda>a v msg. ''hash:'' @ a),
      xPubToCopayerId = (\<lambda>x. ''id-'' @ x),
      toSecret = (\<lambda>i k net. ''secret''),
      fromSecret = (\<lambda>s. Inl ''Invalid secret''),
      accessFromData = (\<lambda>d. ''full''),
      checkCopayers = (\<lambda>cs wp xp n. n = Some (int (length cs)) \<and> distinct (map xPubKey cs)
                         \<and> ''xpubA'' \<in> set (map xPubKey cs)),
      checkAddress = (\<lambda>d b. True),
      checkTxProposal = (\<lambda>d t. Some (requiredSignatures t) = data_m d),
      new_HDPrivateKey = (\<lambda>net. ''xprvA''),
      new_PrivateKey = ''wpk'',
      HDPrivateKey = (\<lambda>k net. js_string k),
      HDPublicKey = (\<lambda>k. ''xpub'' @ drop 4 (js_string k)),
      derive = (\<lambda>k p. k @ ''/'' @ p),
      toPublicKey = (\<lambda>k. ''pub-'' @ k),
      sha256_key = (\<lambda>k. ''shared''),
      address_network = (\<lambda>a. ''livenet''),
      getSignatures = (\<lambda>t k. sign_inputs k 0 (tx_from t))\<rparr>"

definition copayer_A :: copayer where
  "copayer_A = \<lparr>xPubKey = ''xpubA'', xPubKeySignature = ''wpk:xpubA'', copayerName = ''A''\<rparr>"

definition copayer_B :: copayer where
  "copayer_B = \<lparr>xPubKey = ''xpubB'', xPubKeySignature = ''wpk:xpubB'', copayerName = ''B''\<rparr>"

text \<open>A service whose wallet still waits for copayer B, and one where B has joined first.\<close>

definition service_pending :: "event list \<Rightarrow> request \<Rightarrow> response" where
  "service_pending evs r =
     (if req_url r = ''http://localhost:3001/copay/api/v1/wallets/''
      then Response 200 (WalletStatus
             \<lparr>status = ''pending'', copayers = [copayer_A], info_m = Some 2, info_n = Some 2\<rparr>
             (Some []))
      else Response 200 (Json (JObj [])))"

definition service_complete :: "event list \<Rightarrow> request \<Rightarrow> response" where
  "service_complete evs r =
     (if req_url r = ''http://localhost:3001/copay/api/v1/wallets/''
      then Response 200 (WalletStatus
             \<lparr>status = ''complete'', copayers = [copayer_B, copayer_A], info_m = Some 2,
              info_n = Some 2\<rparr>
             (Some []))
      else Response 200 (Json (JObj [])))"

text \<open>A service that cannot be reached, and one that answers every request with 401.\<close>

definition service_down :: "event list \<Rightarrow> request \<Rightarrow> response" where
  "service_down evs r = TransportFailure ''ECONNREFUSED''"

definition service_refusing :: "event list \<Rightarrow> request \<Rightarrow> response" where
  "service_refusing evs r =
     Response 401 (Json (JObj [(''code'', JStr ''NOTAUTHORIZED''), (''error'', JStr ''Not authorized'')]))"

text \<open>
  A proposal with three inputs on two derivation paths, and the same proposal with
  \<open>requiredSignatures\<close> altered.
\<close>

definition example_txp :: txp where
  "example_txp =
     \<lparr>txp_id = ''tx1'', creatorId = ''id-xpubB'', toAddress = ''addrX'', amount = 100000,
      changeAddress = \<lparr>address = ''addrC'', addr_path = ''m/1/7''\<rparr>,
      requiredSignatures = 2,
      inputs = [\<lparr>path = ''m/0/1'', publicKeys = [''pkA1'', ''pkB1''], txid = ''u0'', vout = 0\<rparr>,
                \<lparr>path = ''m/0/2'', publicKeys = [''pkA2'', ''pkB2''], txid = ''u1'', vout = 1\<rparr>,
                \<lparr>path = ''m/0/1'', publicKeys = [''pkA1'', ''pkB1''], txid = ''u2'', vout = 0\<rparr>],
      message = None, encryptedMessage = None, actions = []\<rparr>"

definition tampered_txp :: txp where
  "tampered_txp = example_txp\<lparr>requiredSignatures := 1\<rparr>"

definition world_of :: "wallet \<Rightarrow> world" where
  "world_of d = \<lparr>storage = Holds d, trace = []\<rparr>"

definition empty_world :: world where
  "empty_world = \<lparr>storage = NotFound, trace = []\<rparr>"



section \<open>Properties\<close>

lemma doRequest_world:
  "snd (doRequest e method url args data w) = w\<lparr>trace := trace w @ [Sent (make_request e method url args data)]\<rparr>"
  by (simp add: doRequest_def Let_def split: response.split)

subsection \<open>Requests and their signatures\<close>

lemma lower_char_upper:
  "j < 26 \<Longrightarrow>
   lower_char (''ABCDEFGHIJKLMNOPQRSTUVWXYZ'' ! j) = ''abcdefghijklmnopqrstuvwxyz'' ! j"
proof -
  assume j: "j < 26"
  have "map_of (zip ''ABCDEFGHIJKLMNOPQRSTUVWXYZ'' ''abcdefghijklmnopqrstuvwxyz'')
          (''ABCDEFGHIJKLMNOPQRSTUVWXYZ'' ! j)
        = Some (''abcdefghijklmnopqrstuvwxyz'' ! j)"
    using j by (intro map_of_zip_nth) simp_all
  then show ?thesis
    by (simp only: lower_char_def option.case)
qed

lemma lower_char_other:
  "c \<notin> set ''ABCDEFGHIJKLMNOPQRSTUVWXYZ'' \<Longrightarrow> lower_char c = c"
proof -
  assume c: "c \<notin> set ''ABCDEFGHIJKLMNOPQRSTUVWXYZ''"
  have "map_of (zip ''ABCDEFGHIJKLMNOPQRSTUVWXYZ'' ''abcdefghijklmnopqrstuvwxyz'') c = None"
    using c by (subst map_of_zip_is_None) simp_all
  then show ?thesis
    by (simp only: lower_char_def option.case)
qed


text \<open>
  Claim C4. Every request goes out through \<open>_doRequest\<close>, which sends exactly one
  request whatever the keys are. Its signature is the signature of
  \<open>lowercase(method) | url | JSON(body)\<close>, made with the read-only key when the method
  is \<open>get\<close> and with the read-write key otherwise; when that key is absent (or empty)
  the request is sent without a signature. The lower-cased method has the length of the
  method, with every capital letter replaced by its small letter and every other
  character kept.
\<close>

theorem request_signature:
  "trace (snd (doRequest e method url args data w))
     = trace w @ [Sent (make_request e method url args data)]
   \<and> req_method (make_request e method url args data) = method
   \<and> req_url (make_request e method url args data) = baseUrl e @ url
   \<and> req_body (make_request e method url args data) = args
   \<and> x_signature (make_request e method url args data)
     = (if truthy_str (if method = ''get'' then roPrivKey data else rwPrivKey data)
        then Some (signMessage e
                     (toLowerCase method @ ''|'' @ url @ ''|'' @ JSON_stringify e args)
                     (js_string (if method = ''get'' then roPrivKey data else rwPrivKey data)))
        else None)
   \<and> length (toLowerCase method) = length method
   \<and> (\<forall>i < length method. \<forall>j < 26.
         method ! i = ''ABCDEFGHIJKLMNOPQRSTUVWXYZ'' ! j \<longrightarrow>
         toLowerCase method ! i = ''abcdefghijklmnopqrstuvwxyz'' ! j)
   \<and> (\<forall>i < length method.
         method ! i \<notin> set ''ABCDEFGHIJKLMNOPQRSTUVWXYZ'' \<longrightarrow> toLowerCase method ! i = method ! i)"
proof -
  let ?U = "''ABCDEFGHIJKLMNOPQRSTUVWXYZ''" and ?L = "''abcdefghijklmnopqrstuvwxyz''"
  have a: "\<forall>i < length method. \<forall>j < 26.
         method ! i = ?U ! j \<longrightarrow> toLowerCase method ! i = ?L ! j"
  proof (intro allI impI)
    fix i j
    assume i: "i < length method" and j: "j < (26::nat)" and m: "method ! i = ?U ! j"
    have "toLowerCase method ! i = lower_char (method ! i)"
      using i by (simp only: toLowerCase_def nth_map)
    also have "\<dots> = lower_char (?U ! j)"
      by (simp only: m)
    also have "\<dots> = ?L ! j"
      using j by (rule lower_char_upper)
    finally show "toLowerCase method ! i = ?L ! j" .
  qed
  have b: "\<forall>i < length method. method ! i \<notin> set ?U \<longrightarrow> toLowerCase method ! i = method ! i"
  proof (intro allI impI)
    fix i
    assume i: "i < length method" and m: "method ! i \<notin> set ?U"
    have "toLowerCase method ! i = lower_char (method ! i)"
      using i by (simp only: toLowerCase_def nth_map)
    also have "\<dots> = method ! i"
      using m by (rule lower_char_other)
    finally show "toLowerCase method ! i = method ! i" .
  qed
  have c: "length (toLowerCase method) = length method"
    by (simp only: toLowerCase_def length_map)
  have d1: "trace (snd (doRequest e method url args data w))
              = trace w @ [Sent (make_request e method url args data)]"
    by (simp add: doRequest_world)
  have d2: "req_method (make_request e method url args data) = method"
    and d3: "req_url (make_request e method url args data) = baseUrl e @ url"
    and d4: "req_body (make_request e method url args data) = args"
    by (simp_all add: make_request_def)
  have d5: "x_signature (make_request e method url args data)
     = (if truthy_str (if method = ''get'' then roPrivKey data else rwPrivKey data)
        then Some (signMessage e
                     (toLowerCase method @ ''|'' @ url @ ''|'' @ JSON_stringify e args)
                     (js_string (if method = ''get'' then roPrivKey data else rwPrivKey data)))
        else None)"
    by (simp add: make_request_def reqSignature_def signRequest_def)
  show ?thesis
    by (intro conjI d1 d2 d3 d4 d5 c a b)
qed

lemmas ev = example_env_def wallet_A_def wallet_AB_def world_of_def empty_world_def
  truthy_str_def js_string_def toLowerCase_def lower_char_def

theorem request_signature_witness:
  "x_signature (make_request (example_env service_down) ''get'' ''/v1/balance/'' (JObj []) wallet_A)
     = Some ''xprvA/m/1/0:get|/v1/balance/|{}''
   \<and> toLowerCase ''POST'' = ''post''
   \<and> x_signature (make_request (example_env service_down) ''POST'' ''/v1/addresses/'' (JObj []) wallet_A)
     = Some ''xprvA/m/1/1:post|/v1/addresses/|{}''
   \<and> x_signature (make_request (example_env service_down) ''post'' ''/v1/wallets/'' (JObj []) empty_data)
     = None
   \<and> trace (snd (doRequest (example_env service_down) ''post'' ''/v1/wallets/'' (JObj []) empty_data empty_world))
     = [Sent (make_request (example_env service_down) ''post'' ''/v1/wallets/'' (JObj []) empty_data)]"
proof -
  let ?E = "example_env service_down"
  note G = request_signature [of ?E "''get''" "''/v1/balance/''" "JObj []" wallet_A empty_world]
  note P = request_signature [of ?E "''POST''" "''/v1/addresses/''" "JObj []" wallet_A empty_world]
  note W = request_signature [of ?E "''post''" "''/v1/wallets/''" "JObj []" empty_data empty_world]
  note sigG = G [THEN conjunct2, THEN conjunct2, THEN conjunct2, THEN conjunct2, THEN conjunct1]
  note sigP = P [THEN conjunct2, THEN conjunct2, THEN conjunct2, THEN conjunct2, THEN conjunct1]
  note sigW = W [THEN conjunct2, THEN conjunct2, THEN conjunct2, THEN conjunct2, THEN conjunct1]
  note lenP = P [THEN conjunct2, THEN conjunct2, THEN conjunct2, THEN conjunct2, THEN conjunct2,
                 THEN conjunct1]
  note upP = P [THEN conjunct2, THEN conjunct2, THEN conjunct2, THEN conjunct2, THEN conjunct2,
                THEN conjunct2, THEN conjunct1, rule_format]
  have p0: "toLowerCase ''POST'' ! 0 = CHR ''p''"
    using upP [of 0 15] by simp
  have p1: "toLowerCase ''POST'' ! 1 = CHR ''o''"
    using upP [of 1 14] by simp
  have p2: "toLowerCase ''POST'' ! 2 = CHR ''s''"
    using upP [of 2 18] by simp
  have p3: "toLowerCase ''POST'' ! 3 = CHR ''t''"
    using upP [of 3 19] by simp
  have p: "toLowerCase ''POST'' = ''post''"
  proof (rule nth_equalityI)
    show "length (toLowerCase ''POST'') = length ''post''"
      using lenP by simp
    fix i
    assume "i < length (toLowerCase ''POST'')"
    with lenP have "i = 0 \<or> i = 1 \<or> i = 2 \<or> i = 3"
      by auto
    then show "toLowerCase ''POST'' ! i = ''post'' ! i"
      using p0 p1 p2 p3 by auto
  qed
  have g: "x_signature (make_request ?E ''get'' ''/v1/balance/'' (JObj []) wallet_A)
             = Some ''xprvA/m/1/0:get|/v1/balance/|{}''"
    using sigG by (simp add: ev example_export_def)
  have s: "x_signature (make_request ?E ''POST'' ''/v1/addresses/'' (JObj []) wallet_A)
             = Some ''xprvA/m/1/1:post|/v1/addresses/|{}''"
    using sigP unfolding p
    by (simp add: example_env_def wallet_A_def truthy_str_def js_string_def example_export_def)
  have u: "x_signature (make_request ?E ''post'' ''/v1/wallets/'' (JObj []) empty_data) = None"
    using sigW by (simp add: empty_data_def truthy_str_def)
  have t: "trace (snd (doRequest ?E ''post'' ''/v1/wallets/'' (JObj []) empty_data empty_world))
             = [Sent (make_request ?E ''post'' ''/v1/wallets/'' (JObj []) empty_data)]"
    using W [THEN conjunct1] by (simp add: empty_world_def)
  show ?thesis
    by (intro conjI g p s u t)
qed

subsection \<open>A stored wallet is not overwritten\<close>

text \<open>
  Claim C10. When the storage already holds a wallet, createWallet, joinWallet and
  import each end with an error and leave the world as it was: nothing is sent and
  nothing is saved.
\<close>

theorem existing_wallet_kept:
  assumes "storage w = Holds d"
  shows "(\<exists>err. createWallet e walletName name m n net w = (Inl err, w))
       \<and> joinWallet e secret name w = (Inl (Message ''Storage already contains a wallet''), w)
       \<and> import e str w = (Inl (Message ''Storage already contains a wallet''), w)"
  using assms by (simp add: createWallet_def joinWallet_def import_def storage_load_def Let_def)

theorem existing_wallet_kept_witness:
  "createWallet (example_env service_complete) ''w'' ''A'' (Some 2) (Some 2) None (world_of wallet_A)
     = (Inl (Message ''wallet.dat already contains a wallet''), world_of wallet_A)
   \<and> joinWallet (example_env service_complete) ''s'' ''A'' (world_of wallet_A)
     = (Inl (Message ''Storage already contains a wallet''), world_of wallet_A)
   \<and> import (example_env service_complete) ''[xprvA,2,[xpubB],shared]'' (world_of wallet_A)
     = (Inl (Message ''Storage already contains a wallet''), world_of wallet_A)"
  using existing_wallet_kept [where w = "world_of wallet_A" and d = wallet_A
          and e = "example_env service_complete" and walletName = "''w''" and name = "''A''"
          and m = "Some 2" and n = "Some 2" and net = None and secret = "''s''"
          and str = "''[xprvA,2,[xpubB],shared]''"]
  by (simp add: world_of_def createWallet_def storage_load_def example_env_def truthy_str_def Let_def)


lemma loadAndCheck_complete:
  "storage w = Holds d \<Longrightarrow> \<not> incomplete d \<Longrightarrow> loadAndCheck e w = (Inr d, w)"
  by (auto simp: loadAndCheck_def load_def storage_load_def incomplete_def)

lemma loadAndCheck_incomplete:
  "storage w = Holds d \<Longrightarrow> incomplete d \<Longrightarrow> loadAndCheck e w = tryToComplete e d w"
  by (auto simp: loadAndCheck_def load_def storage_load_def incomplete_def)

lemma loadAndCheck_no_wallet:
  "\<forall>d. storage w \<noteq> Holds d \<Longrightarrow> \<exists>err. loadAndCheck e w = (Inl err, w)"
  by (cases "storage w") (auto simp: loadAndCheck_def load_def storage_load_def)

text \<open>The four ways in which the repair ends.\<close>

lemma tryToComplete_cases:
  "tryToComplete e d w = (r, w1) \<Longrightarrow>
     (\<exists>err. r = Inl err \<and> w1 = w\<lparr>trace := trace w @ [Sent (repair_request e d)]\<rparr>)
   \<or> (\<exists>wi txps. transport e (trace w) (repair_request e d) = Response 200 (WalletStatus wi txps)
          \<and> status wi = ''complete''
          \<and> checkCopayers e (copayers wi) (walletPrivKey d) (xPrivKey d) (data_n d)
          \<and> ((\<exists>err. save_error e (adopt d wi) = Some err \<and> r = Inl (StorageError err)
                \<and> w1 = w\<lparr>trace := trace w @ [Sent (repair_request e d), Save (adopt d wi)]\<rparr>)
             \<or> (save_error e (adopt d wi) = None \<and> r = Inr (adopt d wi)
                \<and> w1 = w\<lparr>storage := Holds (adopt d wi),
                         trace := trace w @ [Sent (repair_request e d), Save (adopt d wi)]\<rparr>)))"
  unfolding tryToComplete_def doGetRequest_def doRequest_def repair_request_def adopt_def save_def
    body_wallet_def Let_def
  by (auto split: response.splits if_splits body.splits json.splits sum.splits option.splits)

subsection \<open>Cosigning a proposal\<close>

lemma loadAndCheck_cases:
  "loadAndCheck e w = (r, w1) \<Longrightarrow>
     w1 = w
   \<or> (\<exists>d. storage w = Holds d \<and> incomplete d \<and> tryToComplete e d w = (r, w1))"
  by (cases "storage w")
     (auto simp: loadAndCheck_def load_def storage_load_def incomplete_def split: if_splits)

lemma loadAndCheck_trace:
  assumes "loadAndCheck e w = (r, w1)"
  shows "take (length (trace w)) (trace w1) = trace w \<and> \<not> list_ex signing_event (new_events w w1)"
proof -
  from loadAndCheck_cases [OF assms] show ?thesis
  proof
    assume "w1 = w"
    then show ?thesis by (simp add: new_events_def)
  next
    assume "\<exists>d. storage w = Holds d \<and> incomplete d \<and> tryToComplete e d w = (r, w1)"
    then obtain d where "tryToComplete e d w = (r, w1)" by blast
    from tryToComplete_cases [OF this] show ?thesis
      by (auto simp: new_events_def repair_request_def make_request_def)
  qed
qed

text \<open>
  Claim C1. When the proposal fails \<open>checkTxProposal\<close> against the wallet data that
  \<open>_loadAndCheck\<close> hands over, signTxProposal ends with the ServerCompromised error in
  the world that \<open>_loadAndCheck\<close> left: since the operation began, no key has been
  derived, \<open>getSignatures\<close> has not been called and no request other than a \<open>get\<close> has
  been sent.
\<close>

theorem signTxProposal_fails_closed:
  assumes "creatorId t \<noteq> []"
    and "loadAndCheck e w = (Inr data, w1)"
    and "\<not> checkTxProposal e data t"
  shows "signTxProposal e t w
           = (Inl (ServerCompromised ''Server sent fake transaction proposal''), w1)
       \<and> take (length (trace w)) (trace w1) = trace w
       \<and> \<not> list_ex signing_event (new_events w w1)"
  using assms loadAndCheck_trace [OF assms(2)]
  by (simp add: signTxProposal_def loadAndCheck_then_def signTxProposal_cb_def)

lemmas example_simps = example_env_def wallet_A_def wallet_AB_def world_of_def empty_world_def
  service_complete_def service_pending_def service_down_def service_refusing_def
  copayer_A_def copayer_B_def example_txp_def tampered_txp_def example_export_def

lemmas model_simps = loadAndCheck_def load_def storage_load_def tryToComplete_def save_def
  doGetRequest_def doPostRequest_def doRequest_def make_request_def reqSignature_def
  signRequest_def parseError_def body_property_def or_default_def
  n_gt_1_def pkrComplete_def truthy_str_def truthy_num_def js_string_def body_wallet_def
  toLowerCase_def lower_char_def pluck_xPubKey_def loadAndCheck_then_def Let_def
  repair_request_def adopt_def incomplete_def new_events_def

lemma example_loadAndCheck:
  "loadAndCheck (example_env service_complete) (world_of wallet_A)
     = (Inr (wallet_A\<lparr>publicKeyRing := Some [''xpubB'', ''xpubA'']\<rparr>),
        \<lparr>storage = Holds (wallet_A\<lparr>publicKeyRing := Some [''xpubB'', ''xpubA'']\<rparr>),
         trace = [Sent (repair_request (example_env service_complete) wallet_A),
                  Save (wallet_A\<lparr>publicKeyRing := Some [''xpubB'', ''xpubA'']\<rparr>)]\<rparr>)"
  by (simp add: model_simps example_simps)

theorem signTxProposal_fails_closed_witness:
  "signTxProposal (example_env service_complete) tampered_txp (world_of wallet_A)
     = (Inl (ServerCompromised ''Server sent fake transaction proposal''),
        \<lparr>storage = Holds (wallet_A\<lparr>publicKeyRing := Some [''xpubB'', ''xpubA'']\<rparr>),
         trace = [Sent (repair_request (example_env service_complete) wallet_A),
                  Save (wallet_A\<lparr>publicKeyRing := Some [''xpubB'', ''xpubA'']\<rparr>)]\<rparr>)"
proof -
  have c: "creatorId tampered_txp \<noteq> []"
    by (simp add: example_simps)
  have v: "\<not> checkTxProposal (example_env service_complete)
               (wallet_A\<lparr>publicKeyRing := Some [''xpubB'', ''xpubA'']\<rparr>) tampered_txp"
    by (simp add: example_simps)
  from signTxProposal_fails_closed [OF c example_loadAndCheck v] show ?thesis
    by simp
qed

subsection \<open>Creating a proposal\<close>

text \<open>
  Claim C9. On the wallet data that \<open>_loadAndCheck\<close> hands over, sendTxProposal without
  a read-write key ends with the error \<open>No key to generate proposals\<close> and sends nothing.
  With the key it makes one \<open>post\<close> to \<open>/v1/txproposals/\<close>; the body carries the message
  encrypted under the shared encrypting key (\<open>null\<close> for no message) and, as
  \<open>proposalSignature\<close>, the signature of the hash of address, amount and ciphertext made
  with the read-write key; the request itself is signed with the same key.
\<close>

theorem sendTxProposal_signs:
  assumes "loadAndCheck e w = (Inr data, w1)"
  shows "(\<not> truthy_str (rwPrivKey data) \<longrightarrow>
            sendTxProposal e toAddr amt msg w = (Inl (Message ''No key to generate proposals''), w1))
       \<and> (truthy_str (rwPrivKey data) \<longrightarrow>
            (let encrypted = (if truthy_str msg
                              then Some (encryptMessage e (js_string msg) (sharedEncryptingKey data))
                              else None);
                 hash = getProposalHash e toAddr amt encrypted;
                 args = JObj [(''toAddress'', JStr toAddr), (''amount'', JNum amt),
                              (''message'', str_or_null encrypted),
                              (''proposalSignature'',
                                 JStr (signMessage e hash (js_string (rwPrivKey data))))];
                 req = make_request e ''post'' ''/v1/txproposals/'' args data
             in sendTxProposal e toAddr amt msg w = doRequest e ''post'' ''/v1/txproposals/'' args data w1
              \<and> trace (snd (sendTxProposal e toAddr amt msg w)) = trace w1 @ [Sent req]
              \<and> req_body req = args
              \<and> x_signature req
                  = Some (signMessage e (''post|/v1/txproposals/|'' @ JSON_stringify e args)
                            (js_string (rwPrivKey data)))))"
  using assms
  by (simp add: sendTxProposal_def loadAndCheck_then_def sendTxProposal_cb_def
      sendTxProposal_args_def encryptMessage'_def doPostRequest_def doRequest_world
      make_request_def reqSignature_def signRequest_def toLowerCase_def lower_char_def Let_def)

theorem sendTxProposal_signs_witness:
  "sendTxProposal (example_env service_complete) ''addrX'' 100000 (Some ''hello'') (world_of wallet_AB)
     = doRequest (example_env service_complete) ''post'' ''/v1/txproposals/''
         (JObj [(''toAddress'', JStr ''addrX''), (''amount'', JNum 100000),
                (''message'', JStr ''enc:hello''),
                (''proposalSignature'', JStr ''xprvA/m/1/1:hash:addrX'')])
         wallet_AB (world_of wallet_AB)
   \<and> sendTxProposal (example_env service_complete) ''addrX'' 100000 (Some ''hello'')
        (world_of (wallet_AB\<lparr>rwPrivKey := None\<rparr>))
     = (Inl (Message ''No key to generate proposals''), world_of (wallet_AB\<lparr>rwPrivKey := None\<rparr>))"
proof -
  have a: "loadAndCheck (example_env service_complete) (world_of wallet_AB)
             = (Inr wallet_AB, world_of wallet_AB)"
    by (simp add: model_simps example_simps)
  have b: "loadAndCheck (example_env service_complete) (world_of (wallet_AB\<lparr>rwPrivKey := None\<rparr>))
             = (Inr (wallet_AB\<lparr>rwPrivKey := None\<rparr>), world_of (wallet_AB\<lparr>rwPrivKey := None\<rparr>))"
    by (simp add: model_simps example_simps)
  from sendTxProposal_signs [OF a, of "''addrX''" 100000 "Some ''hello''"]
       sendTxProposal_signs [OF b, of "''addrX''" 100000 "Some ''hello''"]
  show ?thesis
    by (simp add: example_simps truthy_str_def js_string_def str_or_null_def Let_def)
qed

subsection \<open>Errors of the transport and of the service\<close>

lemma doRequest_failure:
  "transport e (trace w) (make_request e method url args data) = TransportFailure err \<Longrightarrow>
   doRequest e method url args data w
     = (Inl (TransportError err), w\<lparr>trace := trace w @ [Sent (make_request e method url args data)]\<rparr>)"
  by (simp add: doRequest_def)

lemma doRequest_not_200:
  "transport e (trace w) (make_request e method url args data) = Response c b \<Longrightarrow> c \<noteq> 200 \<Longrightarrow>
   doRequest e method url args data w
     = (Inl (parseError e b), w\<lparr>trace := trace w @ [Sent (make_request e method url args data)]\<rparr>)"
  by (simp add: doRequest_def)

lemma parseError_object:
  "parseError e (Json (JObj fs))
     = ServerError (or_default (map_of fs ''code'') ''ERROR'')
         (or_default (map_of fs ''error'') ''There was an unknown error processing the request'')"
  by (simp add: parseError_def body_property_def)

lemma parseError_unparseable:
  "JSON_parse e s = None \<Longrightarrow> s \<noteq> [] \<Longrightarrow>
   parseError e (Json (JStr s)) = ServerError (JStr ''ERROR'') (JStr s)"
  by (simp add: parseError_def body_property_def or_default_def)

text \<open>
  What getStatus does when its request fails: whatever the error, the callback is not
  called with it.
\<close>

lemma getStatus_request_failed:
  assumes "storage w = Holds d"
    and "fst (doGetRequest e ''/v1/wallets/'' d w) = Inl err"
  shows "fst (getStatus e w) = Inl (Thrown ''TypeError'')"
  using assms
  by (cases "doGetRequest e ''/v1/wallets/'' d w")
     (simp add: getStatus_def load_def storage_load_def getStatus_cb_def)

text \<open>
  Claim C7. With a wallet in storage and a service that cannot be reached, getBalance
  ends with the error of the transport, and with a service that answers 401 it ends with
  the code and message of the body. getStatus, at the same two inputs, reads
  \<open>result.pendingTxps\<close> of the absent response: a TypeError is thrown and neither error
  reaches the callback.
\<close>

theorem getStatus_error_not_surfaced:
  "getBalance (example_env service_down) (world_of wallet_AB)
     = (Inl (TransportError ''ECONNREFUSED''),
        \<lparr>storage = Holds wallet_AB,
         trace = [Sent (make_request (example_env service_down) ''get'' ''/v1/balance/'' (JObj []) wallet_AB)]\<rparr>)
   \<and> getBalance (example_env service_refusing) (world_of wallet_AB)
     = (Inl (ServerError (JStr ''NOTAUTHORIZED'') (JStr ''Not authorized'')),
        \<lparr>storage = Holds wallet_AB,
         trace = [Sent (make_request (example_env service_refusing) ''get'' ''/v1/balance/'' (JObj []) wallet_AB)]\<rparr>)
   \<and> getStatus (example_env service_down) (world_of wallet_AB)
     = (Inl (Thrown ''TypeError''),
        \<lparr>storage = Holds wallet_AB,
         trace = [Sent (make_request (example_env service_down) ''get'' ''/v1/wallets/'' (JObj []) wallet_AB)]\<rparr>)
   \<and> getStatus (example_env service_refusing) (world_of wallet_AB)
     = (Inl (Thrown ''TypeError''),
        \<lparr>storage = Holds wallet_AB,
         trace = [Sent (make_request (example_env service_refusing) ''get'' ''/v1/wallets/'' (JObj []) wallet_AB)]\<rparr>)"
  by (simp add: getBalance_def getBalance_cb_def getStatus_def getStatus_cb_def
      model_simps example_simps)

subsection \<open>Operations on an incomplete wallet\<close>

text \<open>
  Claim C5, as stated, at the incomplete wallet of copayer A while the service still
  waits for B: getBalance runs the repair, which fails, and ends with \<open>Wallet Incomplete\<close>
  without asking for the balance. With the ring complete and everything else the same,
  it succeeds.
\<close>

theorem getBalance_needs_complete_ring:
  "getBalance (example_env service_pending) (world_of wallet_A)
     = (Inl (Message ''Wallet Incomplete''),
        \<lparr>storage = Holds wallet_A,
         trace = [Sent (repair_request (example_env service_pending) wallet_A)]\<rparr>)
   \<and> getBalance (example_env service_pending) (world_of wallet_AB)
     = (Inr (Json (JObj [])),
        \<lparr>storage = Holds wallet_AB,
         trace = [Sent (make_request (example_env service_pending) ''get'' ''/v1/balance/'' (JObj []) wallet_AB)]\<rparr>)"
  by (simp add: getBalance_def getBalance_cb_def model_simps example_simps)

text \<open>
  Claim C5, amended. On an incomplete wallet getStatus does not run the repair: it sends
  its one request, saves nothing, and succeeds when the service answers with a status.
  getBalance, getMainAddresses and getTxProposals go through \<open>_loadAndCheck\<close>: on an
  incomplete wallet they run the repair first, end with its error when it fails, and go
  on with the repaired data when it succeeds.
\<close>

theorem read_operations_on_incomplete_wallet:
  assumes "storage w = Holds d" and "incomplete d"
  shows "snd (getStatus e w)
           = w\<lparr>trace := trace w @ [Sent (make_request e ''get'' ''/v1/wallets/'' (JObj []) d)]\<rparr>
       \<and> (\<forall>wi txps. transport e (trace w) (make_request e ''get'' ''/v1/wallets/'' (JObj []) d)
                       = Response 200 (WalletStatus wi (Some txps)) \<longrightarrow>
            fst (getStatus e w)
              = Inr (WalletStatus wi (Some (processTxps e txps (sharedEncryptingKey d))),
                     copayerId d))
       \<and> getBalance e w
           = (case tryToComplete e d w of
                (Inl err, w1) \<Rightarrow> (Inl err, w1)
              | (Inr d', w1) \<Rightarrow> doGetRequest e ''/v1/balance/'' d' w1)
       \<and> getMainAddresses e doNotVerify w
           = (case tryToComplete e d w of
                (Inl err, w1) \<Rightarrow> (Inl err, w1)
              | (Inr d', w1) \<Rightarrow> getMainAddresses_cb e doNotVerify d' w1)
       \<and> getTxProposals e doNotVerify getRawTxps w
           = (case tryToComplete e d w of
                (Inl err, w1) \<Rightarrow> (Inl err, w1)
              | (Inr d', w1) \<Rightarrow> getTxProposals_cb e doNotVerify getRawTxps d' w1)"
proof -
  have s: "snd (getStatus e w)
             = w\<lparr>trace := trace w @ [Sent (make_request e ''get'' ''/v1/wallets/'' (JObj []) d)]\<rparr>"
    using assms(1) doRequest_world [of e "''get''" "''/v1/wallets/''" "JObj []" d w]
    by (cases "doRequest e ''get'' ''/v1/wallets/'' (JObj []) d w")
       (simp add: getStatus_def load_def storage_load_def doGetRequest_def)
  have f: "\<forall>wi txps. transport e (trace w) (make_request e ''get'' ''/v1/wallets/'' (JObj []) d)
                       = Response 200 (WalletStatus wi (Some txps)) \<longrightarrow>
            fst (getStatus e w)
              = Inr (WalletStatus wi (Some (processTxps e txps (sharedEncryptingKey d))),
                     copayerId d)"
    using assms(1)
    by (simp add: getStatus_def load_def storage_load_def doGetRequest_def doRequest_def
        getStatus_cb_def Let_def)
  have l: "loadAndCheck e w = tryToComplete e d w"
    using assms by (rule loadAndCheck_incomplete)
  have g: "getBalance_cb e = (\<lambda>d' w1. doGetRequest e ''/v1/balance/'' d' w1)"
    by (intro ext) (simp add: getBalance_cb_def)
  show ?thesis
    using s f
    by (simp add: getBalance_def getMainAddresses_def getTxProposals_def loadAndCheck_then_def l g)
qed

theorem read_operations_on_incomplete_wallet_witness:
  "getStatus (example_env service_pending) (world_of wallet_A)
     = (Inr (WalletStatus
               \<lparr>status = ''pending'', copayers = [copayer_A], info_m = Some 2, info_n = Some 2\<rparr>
               (Some []), Some ''id-xpubA''),
        \<lparr>storage = Holds wallet_A,
         trace = [Sent (make_request (example_env service_pending) ''get'' ''/v1/wallets/'' (JObj []) wallet_A)]\<rparr>)
   \<and> getMainAddresses (example_env service_pending) False (world_of wallet_A)
     = (Inl (Message ''Wallet Incomplete''),
        \<lparr>storage = Holds wallet_A,
         trace = [Sent (repair_request (example_env service_pending) wallet_A)]\<rparr>)"
proof -
  have h: "storage (world_of wallet_A) = Holds wallet_A"
    by (simp add: world_of_def)
  have i: "incomplete wallet_A"
    by (simp add: incomplete_def n_gt_1_def pkrComplete_def wallet_A_def)
  have t: "tryToComplete (example_env service_pending) wallet_A (world_of wallet_A)
             = (Inl (Message ''Wallet Incomplete''),
                \<lparr>storage = Holds wallet_A,
                 trace = [Sent (repair_request (example_env service_pending) wallet_A)]\<rparr>)"
    by (simp add: model_simps example_simps)
  have r: "transport (example_env service_pending) (trace (world_of wallet_A))
             (make_request (example_env service_pending) ''get'' ''/v1/wallets/'' (JObj []) wallet_A)
           = Response 200 (WalletStatus
               \<lparr>status = ''pending'', copayers = [copayer_A], info_m = Some 2, info_n = Some 2\<rparr>
               (Some []))"
    by (simp add: model_simps example_simps)
  note T = read_operations_on_incomplete_wallet
             [OF h i, of "example_env service_pending" False False]
  from T have a: "snd (getStatus (example_env service_pending) (world_of wallet_A))
                    = \<lparr>storage = Holds wallet_A,
                       trace = [Sent (make_request (example_env service_pending) ''get''
                                        ''/v1/wallets/'' (JObj []) wallet_A)]\<rparr>"
    by (simp add: world_of_def)
  from T r have b: "fst (getStatus (example_env service_pending) (world_of wallet_A))
                      = Inr (WalletStatus
                               \<lparr>status = ''pending'', copayers = [copayer_A], info_m = Some 2,
                                info_n = Some 2\<rparr>
                               (Some []), Some ''id-xpubA'')"
    by (simp add: processTxps_def wallet_A_def)
  from T t have c: "getMainAddresses (example_env service_pending) False (world_of wallet_A)
                      = (Inl (Message ''Wallet Incomplete''),
                         \<lparr>storage = Holds wallet_A,
                          trace = [Sent (repair_request (example_env service_pending) wallet_A)]\<rparr>)"
    by simp
  from a b c show ?thesis
    by (simp add: prod_eq_iff)
qed

subsection \<open>Repairing an incomplete wallet before an operation\<close>

lemma logs_only_refl [simp]: "logs_only w w"
  by (simp add: logs_only_def)


lemma logs_only_append [simp]: "logs_only w (w\<lparr>trace := trace w @ evs\<rparr>)"
  by (simp add: logs_only_def)

lemma snd_forget [simp]: "snd (forget r) = snd r"
  by (simp add: forget_def split: prod.splits sum.splits)





lemma derive_each_events:
  "derive_each e xpriv is (privs, derived, evs) = (privs', derived', evs') \<Longrightarrow>
   \<exists>more. evs' = evs @ more"
proof (induction "is" arbitrary: privs derived evs)
  case Nil
  then show ?case by simp
next
  case (Cons i rest)
  show ?case
  proof (cases "derived_has derived (path i)")
    case True
    with Cons.prems have "derive_each e xpriv rest (privs, derived, evs) = (privs', derived', evs')"
      by simp
    then show ?thesis by (rule Cons.IH)
  next
    case False
    with Cons.prems have
      "derive_each e xpriv rest
         (privs @ [derive e xpriv (path i)], derived(path i \<mapsto> derive e xpriv (path i)),
          evs @ [Derive (path i)]) = (privs', derived', evs')"
      by simp
    from Cons.IH [OF this] obtain more where "evs' = (evs @ [Derive (path i)]) @ more"
      by blast
    then have "evs' = evs @ (Derive (path i) # more)"
      by simp
    then show ?thesis by blast
  qed
qed














subsection \<open>The ring of a stored wallet\<close>






subsection \<open>The signatures of a verified proposal\<close>















subsection \<open>Export and import\<close>

lemma all_strings_map: "all_strings (map JStr ring) = Some ring"
  by (induction ring) simp_all

lemma length_without_own:
  "distinct ring \<Longrightarrow> x \<in> set ring \<Longrightarrow> Suc (length (removeAll x ring)) = length ring"
  by (induction ring) (auto simp: removeAll_id)

lemma export_array_full:
  assumes "xPrivKey d = Some xp" and "publicKeyRing d = Some ring" and "data_m d = Some m"
  shows "export_array e ''full'' d
           = [JStr xp, JNum m, JArr (map JStr (removeAll (HDPublicKey e (Some xp)) ring)),
              str_or_null (sharedEncryptingKey d)]"
  using assms
  by (simp add: export_array_def export_entry_def wallet_field_def WALLET_CRITICAL_DATA_def
      without_def str_or_null_def num_or_null_def Let_def)

lemma import_data_full:
  "import_data [JStr xp, JNum m, JArr (map JStr ring), str_or_null sk]
     = Inr \<lparr>copayerId = None, xPrivKey = Some xp, publicKeyRing = Some ring, network = None,
            data_m = Some m, data_n = None, roPrivKey = None, rwPrivKey = None,
            walletPrivKey = None, sharedEncryptingKey = sk\<rparr>"
  by (cases sk)
     (simp_all add: import_data_def nth_opt_def sum_bind_def str_or_null_def all_strings_map)

text \<open>
  Claim C6. Take a stored wallet that has its own extended private key, the identifier
  of that key, a ring without repetitions that contains the own public key, \<open>n\<close> equal to
  the length of the ring and \<open>m\<close> set; a JSON library that parses what it has written;
  and a storage that accepts the save. Then export with access \<open>full\<close> succeeds, and
  import of the exported text into an empty storage stores a wallet with the same
  \<open>copayerId\<close>, \<open>m\<close> and \<open>n\<close>, whose ring is the own public key followed by the other keys
  of the exported ring in their order.
\<close>

theorem export_import_round_trip:
  assumes "storage w = Holds d" and "storage w0 = NotFound"
    and "xPrivKey d = Some xp" and "xp \<noteq> []"
    and "copayerId d = Some (xPubToCopayerId e (HDPublicKey e (Some xp)))"
    and "xPubToCopayerId e (HDPublicKey e (Some xp)) \<noteq> []"
    and "publicKeyRing d = Some ring" and "distinct ring"
    and "HDPublicKey e (Some xp) \<in> set ring"
    and "data_n d = Some (int (length ring))"
    and "data_m d = Some m" and "m \<noteq> 0"
    and "JSON_parse e (JSON_stringify e (JArr (export_array e ''full'' d)))
           = Some (JArr (export_array e ''full'' d))"
    and "\<forall>x. save_error e x = None"
  shows "export e (Some ''full'') w
           = (Inr (JSON_stringify e (JArr (export_array e ''full'' d))), w)
       \<and> (\<exists>d'. import e (JSON_stringify e (JArr (export_array e ''full'' d))) w0
                  = (Inr (accessFromData e d'),
                     w0\<lparr>storage := Holds d', trace := trace w0 @ [Save d']\<rparr>)
               \<and> copayerId d' = copayerId d
               \<and> data_m d' = data_m d
               \<and> data_n d' = data_n d
               \<and> publicKeyRing d'
                   = Some (HDPublicKey e (Some xp) # removeAll (HDPublicKey e (Some xp)) ring)
               \<and> set (HDPublicKey e (Some xp) # removeAll (HDPublicKey e (Some xp)) ring)
                   = set ring)"
proof -
  let ?own = "HDPublicKey e (Some xp)"
  let ?rest = "removeAll ?own ring"
  let ?S = "JSON_stringify e (JArr (export_array e ''full'' d))"
  let ?d' = "\<lparr>copayerId = Some (xPubToCopayerId e ?own), xPrivKey = Some xp,
              publicKeyRing = Some (?own # ?rest),
              network = Some (if take 4 ?own = ''tpub'' then ''testnet'' else ''livenet''),
              data_m = Some m, data_n = Some (int (Suc (length ?rest))),
              roPrivKey = Some (derive e xp ''m/1/0''), rwPrivKey = Some (derive e xp ''m/1/1''),
              walletPrivKey = None, sharedEncryptingKey = sharedEncryptingKey d\<rparr>"
  have c: "\<not> incomplete d"
    using assms(7,10,11,12) by (simp add: incomplete_def pkrComplete_def truthy_num_def)
  have x: "export e (Some ''full'') w = (Inr ?S, w)"
    by (simp add: export_def loadAndCheck_then_def loadAndCheck_complete [OF assms(1) c]
        export_cb_def truthy_str_def js_string_def)
  have a: "export_array e ''full'' d
             = [JStr xp, JNum m, JArr (map JStr ?rest), str_or_null (sharedEncryptingKey d)]"
    using assms(3,7,11) by (rule export_array_full)
  have p: "JSON_parse e ?S
             = Some (JArr [JStr xp, JNum m, JArr (map JStr ?rest),
                           str_or_null (sharedEncryptingKey d)])"
    using assms(13) by (simp only: a)
  have o: "import_own_key e
             \<lparr>copayerId = None, xPrivKey = Some xp, publicKeyRing = Some ?rest, network = None,
              data_m = Some m, data_n = None, roPrivKey = None, rwPrivKey = None,
              walletPrivKey = None, sharedEncryptingKey = sharedEncryptingKey d\<rparr>
           = Inr \<lparr>copayerId = Some (xPubToCopayerId e ?own), xPrivKey = Some xp,
                  publicKeyRing = Some (?own # ?rest), network = None,
                  data_m = Some m, data_n = None,
                  roPrivKey = Some (derive e xp ''m/1/0''),
                  rwPrivKey = Some (derive e xp ''m/1/1''),
                  walletPrivKey = None, sharedEncryptingKey = sharedEncryptingKey d\<rparr>"
    using assms(4) by (simp add: import_own_key_def truthy_str_def js_string_def Let_def)
  have i: "import e ?S w0
             = (Inr (accessFromData e ?d'), w0\<lparr>storage := Holds ?d', trace := trace w0 @ [Save ?d']\<rparr>)"
    using assms(2,6,12,14)
    by (simp add: import_def storage_load_def p import_data_full import_finish_def o
        truthy_str_def truthy_num_def ring_first_def js_string_def save_def Let_def)
  have l: "Suc (length ?rest) = length ring"
    using assms(8,9) by (rule length_without_own)
  have s: "set (?own # ?rest) = set ring"
    using assms(9) by auto
  have "copayerId ?d' = copayerId d \<and> data_m ?d' = data_m d \<and> data_n ?d' = data_n d
        \<and> publicKeyRing ?d' = Some (?own # ?rest)"
    using assms(5,10,11) l by simp
  with i s have "\<exists>d'. import e ?S w0
                  = (Inr (accessFromData e d'),
                     w0\<lparr>storage := Holds d', trace := trace w0 @ [Save d']\<rparr>)
               \<and> copayerId d' = copayerId d
               \<and> data_m d' = data_m d
               \<and> data_n d' = data_n d
               \<and> publicKeyRing d' = Some (?own # ?rest)
               \<and> set (?own # ?rest) = set ring"
    by blast
  with x show ?thesis
    by blast
qed

theorem export_import_round_trip_witness:
  "export (example_env service_complete) (Some ''full'') (world_of wallet_AB)
     = (Inr ''[xprvA,2,[xpubB],shared]'', world_of wallet_AB)
   \<and> (\<exists>d'. import (example_env service_complete) ''[xprvA,2,[xpubB],shared]'' empty_world
              = (Inr (accessFromData (example_env service_complete) d'),
                 empty_world\<lparr>storage := Holds d', trace := trace empty_world @ [Save d']\<rparr>)
           \<and> copayerId d' = Some ''id-xpubA''
           \<and> data_m d' = Some 2
           \<and> data_n d' = Some 2
           \<and> publicKeyRing d' = Some [''xpubA'', ''xpubB''])"
proof -
  let ?E = "example_env service_complete"
  have own: "HDPublicKey ?E (Some ''xprvA'') = ''xpubA''"
    by (simp add: example_env_def js_string_def)
  have h1: "storage (world_of wallet_AB) = Holds wallet_AB"
    and h2: "storage empty_world = NotFound"
    by (simp_all add: world_of_def empty_world_def)
  have h3: "xPrivKey wallet_AB = Some ''xprvA''" and h4: "''xprvA'' \<noteq> []"
    and h7: "publicKeyRing wallet_AB = Some [''xpubA'', ''xpubB'']"
    and h8: "distinct [''xpubA'', ''xpubB'']"
    and h10: "data_n wallet_AB = Some (int (length [''xpubA'', ''xpubB'']))"
    and h11: "data_m wallet_AB = Some 2" and h12: "(2::int) \<noteq> 0"
    by (simp_all add: wallet_AB_def wallet_A_def)
  have h5: "copayerId wallet_AB = Some (xPubToCopayerId ?E (HDPublicKey ?E (Some ''xprvA'')))"
    and h6: "xPubToCopayerId ?E (HDPublicKey ?E (Some ''xprvA'')) \<noteq> []"
    unfolding own by (simp_all add: example_env_def wallet_AB_def wallet_A_def)
  have h9: "HDPublicKey ?E (Some ''xprvA'') \<in> set [''xpubA'', ''xpubB'']"
    unfolding own by simp
  have a: "JArr (export_array ?E ''full'' wallet_AB) = example_export"
    unfolding export_array_full [OF h3 h7 h11] own
    by (simp add: example_export_def str_or_null_def wallet_AB_def wallet_A_def)
  have s: "JSON_stringify ?E (JArr (export_array ?E ''full'' wallet_AB)) = ''[xprvA,2,[xpubB],shared]''"
    unfolding a by (simp add: example_env_def)
  have h13: "JSON_parse ?E (JSON_stringify ?E (JArr (export_array ?E ''full'' wallet_AB)))
               = Some (JArr (export_array ?E ''full'' wallet_AB))"
    unfolding s unfolding a by (simp add: example_env_def)
  have h14: "\<forall>x. save_error ?E x = None"
    by (simp add: example_env_def)
  from export_import_round_trip [OF h1 h2 h3 h4 h5 h6 h7 h8 h9 h10 h11 h12 h13 h14]
  show ?thesis
    unfolding s own
    by (simp add: wallet_AB_def wallet_A_def)
qed

end
